theory Spec2Isabelle
  imports Complex_Main "HOL-Library.Sublist"
begin

section \<open>Values of the interpreter\<close>

text \<open>
  The handlers of \<^verbatim>\<open>app.py\<close> walk the value that \<^verbatim>\<open>response.json()\<close> returns and
  answer with the value handed to \<^verbatim>\<open>jsonify\<close>. Both are JSON values. An object holds the
  items of the \<^verbatim>\<open>dict\<close> in order (its keys are distinct); a float is read as the rational
  it denotes, so the rounding error of the binary format and the non-finite floats are
  outside the model.
\<close>

datatype json =
    JNull
  | JBool bool
  | JInt int
  | JFloat rat
  | JStr string
  | JArr "json list"
  | JObj "(string \<times> json) list"

text \<open>
  The exceptions the code can raise. \<open>RequestError\<close> stands for whatever
  \<^verbatim>\<open>requests.get\<close>, \<^verbatim>\<open>raise_for_status\<close> and \<^verbatim>\<open>response.json\<close> raise; the two sqlite3
  errors carry the engine's message.
\<close>

datatype error =
    KeyError string
  | IndexError
  | TypeError
  | ValueError
  | ZeroDivisionError
  | RequestError
  | OperationalError string
  | IntegrityError string

type_synonym 'a result = "error + 'a"

definition and_then :: "'a result \<Rightarrow> ('a \<Rightarrow> 'b result) \<Rightarrow> 'b result" where
  "and_then r f = (case r of Inl e \<Rightarrow> Inl e | Inr v \<Rightarrow> f v)"

text \<open>\<^verbatim>\<open>key in value\<close> for a string key: membership in a dict's keys, in a list's elements,
  substring of a string; any other value is not iterable.\<close>

fun py_contains :: "json \<Rightarrow> string \<Rightarrow> bool result" where
  "py_contains (JObj kv) k = Inr (k \<in> set (map fst kv))"
| "py_contains (JArr xs) k = Inr (JStr k \<in> set xs)"
| "py_contains (JStr s) k = Inr (sublist k s)"
| "py_contains _ k = Inl TypeError"

text \<open>\<^verbatim>\<open>value[key]\<close> for a string key.\<close>

fun py_getitem :: "json \<Rightarrow> string \<Rightarrow> json result" where
  "py_getitem (JObj kv) k = (case map_of kv k of None \<Rightarrow> Inl (KeyError k) | Some v \<Rightarrow> Inr v)"
| "py_getitem _ k = Inl TypeError"

text \<open>\<^verbatim>\<open>value[i]\<close> for an integer: a negative index counts from the end; a dict loaded from
  JSON has string keys only, so an integer is never one of them.\<close>

definition py_nth :: "'a list \<Rightarrow> int \<Rightarrow> 'a result" where
  "py_nth xs i =
     (let j = (if i < 0 then i + int (length xs) else i)
      in if j < 0 \<or> int (length xs) \<le> j then Inl IndexError else Inr (xs ! nat j))"

fun py_index :: "json \<Rightarrow> int \<Rightarrow> json result" where
  "py_index (JArr xs) i = py_nth xs i"
| "py_index (JStr s) i = and_then (py_nth s i) (\<lambda>c. Inr (JStr [c]))"
| "py_index (JObj kv) i = Inl (KeyError ''0'')"
| "py_index _ i = Inl TypeError"

text \<open>The elements a \<^verbatim>\<open>for\<close> loop visits.\<close>

fun py_iter :: "json \<Rightarrow> json list result" where
  "py_iter (JArr xs) = Inr xs"
| "py_iter (JObj kv) = Inr (map (\<lambda>p. JStr (fst p)) kv)"
| "py_iter (JStr s) = Inr (map (\<lambda>c. JStr [c]) s)"
| "py_iter _ = Inl TypeError"

subsection \<open>\<^verbatim>\<open>int()\<close>\<close>

text \<open>
  \<^verbatim>\<open>int(s)\<close> in base 10 on an ASCII string: surrounding whitespace is dropped, one sign is
  allowed, then come decimal digits, where a single underscore may stand between two
  digits. Anything else raises \<^verbatim>\<open>ValueError\<close>. (The interpreter's limit on the number of
  digits is not modelled.)
\<close>

definition is_space :: "char \<Rightarrow> bool" where
  "is_space c = (of_char c \<in> {9, 10, 11, 12, 13, 28, 29, 30, 31, 32 :: nat})"

definition is_digit :: "char \<Rightarrow> bool" where
  "is_digit c = (48 \<le> (of_char c :: nat) \<and> (of_char c :: nat) \<le> 57)"

definition digit_val :: "char \<Rightarrow> nat" where
  "digit_val c = of_char c - 48"

definition strip :: "string \<Rightarrow> string" where
  "strip s = rev (dropWhile is_space (rev (dropWhile is_space s)))"

fun digits_of :: "string \<Rightarrow> string option" where
  "digits_of [] = None"
| "digits_of [c] = (if is_digit c then Some [c] else None)"
| "digits_of (c # d # r) =
     (if \<not> is_digit c then None
      else if d = CHR ''_'' then map_option ((#) c) (digits_of r)
      else map_option ((#) c) (digits_of (d # r)))"

definition decimal :: "string \<Rightarrow> nat" where
  "decimal ds = foldl (\<lambda>a c. 10 * a + digit_val c) 0 ds"

definition py_int_str :: "string \<Rightarrow> int result" where
  "py_int_str s =
     (case strip s of
        [] \<Rightarrow> Inl ValueError
      | c # r \<Rightarrow>
          (case digits_of (if c = CHR ''-'' \<or> c = CHR ''+'' then r else c # r) of
             None \<Rightarrow> Inl ValueError
           | Some ds \<Rightarrow> Inr (if c = CHR ''-'' then - int (decimal ds) else int (decimal ds))))"

fun py_int :: "json \<Rightarrow> int result" where
  "py_int (JInt n) = Inr n"
| "py_int (JBool b) = Inr (if b then 1 else 0)"
| "py_int (JFloat r) = Inr (if 0 \<le> r then \<lfloor>r\<rfloor> else \<lceil>r\<rceil>)"
| "py_int (JStr s) = py_int_str s"
| "py_int _ = Inl TypeError"

section \<open>The feed adapter: \<^verbatim>\<open>get_departures\<close>\<close>

text \<open>
  A response is the body given to \<^verbatim>\<open>jsonify\<close> and the HTTP status code. The handler
  takes the outcome of the upstream call (\<open>Inl\<close> when the request, the status check or
  the decoding raised), the reading of the clock (one value stands for every reading
  during the request) and the rendering \<^verbatim>\<open>str(e)\<close> of an exception, whose text depends on
  the interpreter.
\<close>

type_synonym response = "json \<times> nat"

text \<open>The dict built for one estimate; its entries are evaluated in the order written.\<close>

definition departure_record :: "string \<Rightarrow> json \<Rightarrow> json \<Rightarrow> json result" where
  "departure_record now destination estimate =
     and_then (py_getitem estimate ''minutes'') (\<lambda>m.
     and_then (py_int (if m \<noteq> JStr ''Leaving'' then m else JStr ''0'')) (\<lambda>minutes.
     and_then (py_getitem estimate ''platform'') (\<lambda>platform.
     and_then (py_getitem estimate ''direction'') (\<lambda>direction.
     and_then (py_getitem estimate ''length'') (\<lambda>l.
     and_then (py_int l) (\<lambda>len.
       Inr (JObj [(''timestamp'', JStr now),
                  (''destination'', destination),
                  (''minutes'', JInt minutes),
                  (''platform'', platform),
                  (''direction'', direction),
                  (''delay'', JInt 0),
                  (''length'', JInt len)])))))))"

text \<open>The inner loop over \<^verbatim>\<open>etd['estimate']\<close>, appending to \<^verbatim>\<open>departures\<close>.\<close>

fun estimate_loop :: "string \<Rightarrow> json \<Rightarrow> json list \<Rightarrow> json list \<Rightarrow> json list result" where
  "estimate_loop now destination [] departures = Inr departures"
| "estimate_loop now destination (estimate # rest) departures =
     (case departure_record now destination estimate of
        Inl e \<Rightarrow> Inl e
      | Inr departure \<Rightarrow> estimate_loop now destination rest (departures @ [departure]))"

text \<open>The outer loop over \<^verbatim>\<open>station_data['etd']\<close>.\<close>

fun etd_loop :: "string \<Rightarrow> json list \<Rightarrow> json list \<Rightarrow> json list result" where
  "etd_loop now [] departures = Inr departures"
| "etd_loop now (etd # rest) departures =
     (case py_getitem etd ''destination'' of
        Inl e \<Rightarrow> Inl e
      | Inr destination \<Rightarrow>
          (case and_then (py_getitem etd ''estimate'') py_iter of
             Inl e \<Rightarrow> Inl e
           | Inr estimates \<Rightarrow>
               (case estimate_loop now destination estimates departures of
                  Inl e \<Rightarrow> Inl e
                | Inr departures' \<Rightarrow> etd_loop now rest departures')))"

text \<open>The body of the \<^verbatim>\<open>try\<close> after the payload has been decoded.\<close>

definition collect_departures :: "string \<Rightarrow> json \<Rightarrow> json list result" where
  "collect_departures now data =
     and_then (py_contains data ''root'') (\<lambda>has_root.
     and_then (if has_root
               then and_then (py_getitem data ''root'') (\<lambda>root. py_contains root ''station'')
               else Inr False) (\<lambda>has_station.
       if has_station then
         and_then (py_getitem data ''root'') (\<lambda>root.
         and_then (py_getitem root ''station'') (\<lambda>stations.
         and_then (py_index stations 0) (\<lambda>station_data.
         and_then (py_contains station_data ''etd'') (\<lambda>has_etd.
           if has_etd then
             and_then (py_getitem station_data ''etd'') (\<lambda>etds.
             and_then (py_iter etds) (\<lambda>etd_list.
               etd_loop now etd_list []))
           else Inr []))))
       else Inr []))"

definition get_departures :: "json result \<Rightarrow> string \<Rightarrow> (error \<Rightarrow> string) \<Rightarrow> response" where
  "get_departures upstream now str_e =
     (case and_then upstream (collect_departures now) of
        Inr departures \<Rightarrow>
          (JObj [(''status'', JStr ''Data available''),
                 (''timestamp'', JStr now),
                 (''departures'', JArr departures)], 200)
      | Inl e \<Rightarrow>
          (JObj [(''status'', JStr ''Error''),
                 (''timestamp'', JStr now),
                 (''error'', JStr (str_e e)),
                 (''departures'', JArr [])], 500))"


section \<open>The feed adapter: \<^verbatim>\<open>get_stations\<close>\<close>

fun station_loop :: "json list \<Rightarrow> json list \<Rightarrow> json list result" where
  "station_loop [] stations = Inr stations"
| "station_loop (station # rest) stations =
     (case py_getitem station ''name'' of
        Inl e \<Rightarrow> Inl e
      | Inr name \<Rightarrow>
          (case py_getitem station ''abbr'' of
             Inl e \<Rightarrow> Inl e
           | Inr abbr \<Rightarrow>
               station_loop rest (stations @ [JObj [(''name'', name), (''abbr'', abbr)]])))"

definition collect_stations :: "json \<Rightarrow> json list result" where
  "collect_stations data =
     and_then (py_getitem data ''root'') (\<lambda>root.
     and_then (py_getitem root ''stations'') (\<lambda>stations.
     and_then (py_getitem stations ''station'') (\<lambda>station.
     and_then (py_iter station) (\<lambda>station_list.
       station_loop station_list []))))"

definition get_stations :: "json result \<Rightarrow> (error \<Rightarrow> string) \<Rightarrow> response" where
  "get_stations upstream str_e =
     (case and_then upstream collect_stations of
        Inr stations \<Rightarrow> (JArr stations, 200)
      | Inl e \<Rightarrow> (JObj [(''error'', JStr (str_e e))], 500))"

definition get_daily_analytics :: "string \<Rightarrow> response" where
  "get_daily_analytics now =
     (JObj [(''status'', JStr ''No historical data available''),
            (''timestamp'', JStr now),
            (''data'', JArr [])], 200)"

section \<open>The observation store\<close>

text \<open>
  SQLite keeps a timestamp as the text \<^verbatim>\<open>YYYY-MM-DD HH:MM:SS\<close> in UTC and compares such
  texts as strings, which is their order in time. The model keeps the count of seconds
  instead, and a date as the count of days: \<^verbatim>\<open>date(t)\<close> is \<open>date_of t\<close>, and
  \<^verbatim>\<open>datetime('now', '-7 days')\<close> is \<open>now - 7 * 86400\<close>.
\<close>

type_synonym timestamp = int
type_synonym date = int

definition date_of :: "timestamp \<Rightarrow> date" where
  "date_of t = t div 86400"

subsection \<open>The dicts handed to the write paths\<close>

text \<open>
  An entry of a dict is absent, \<^verbatim>\<open>None\<close>, or a value; the values have the type of the
  column they are bound to. \<^verbatim>\<open>d[k]\<close> raises on an absent key, \<^verbatim>\<open>d.get(k)\<close> and
  \<^verbatim>\<open>d.get(k, default)\<close> do not. A bound \<^verbatim>\<open>None\<close> is SQL's NULL, written \<open>None\<close>.
\<close>

datatype 'a entry = Absent | PyNone | Given 'a

fun py_item :: "string \<Rightarrow> 'a entry \<Rightarrow> 'a option result" where
  "py_item k Absent = Inl (KeyError k)"
| "py_item k PyNone = Inr None"
| "py_item k (Given v) = Inr (Some v)"

fun py_get :: "'a entry \<Rightarrow> 'a option" where
  "py_get Absent = None"
| "py_get PyNone = None"
| "py_get (Given v) = Some v"

fun py_get_default :: "'a entry \<Rightarrow> 'a \<Rightarrow> 'a option" where
  "py_get_default Absent d = Some d"
| "py_get_default PyNone d = None"
| "py_get_default (Given v) d = Some v"

record station_data =
  sd_id :: "string entry"
  sd_name :: "string entry"
  sd_abbr :: "string entry"
  sd_city :: "string entry"
  sd_county :: "string entry"
  sd_state :: "string entry"
  sd_zipcode :: "string entry"

record departure_data =
  dd_station_id :: "string entry"
  dd_destination :: "string entry"
  dd_platform :: "string entry"
  dd_minutes :: "int entry"
  dd_direction :: "string entry"
  dd_color :: "string entry"
  dd_length :: "int entry"
  dd_bike_flag :: "int entry"
  dd_delay :: "int entry"

subsection \<open>The tables of \<^verbatim>\<open>create_tables\<close>\<close>

text \<open>
  One record per table, one field per column, in the order of \<^verbatim>\<open>CREATE TABLE\<close>. A column
  declared \<^verbatim>\<open>NOT NULL\<close> has no \<open>option\<close>; neither have the columns that every insert of
  this code fills (the timestamps and \<^verbatim>\<open>departures.date\<close>). \<^verbatim>\<open>stations.id\<close> is a
  \<^verbatim>\<open>TEXT PRIMARY KEY\<close>, for which SQLite admits NULL, and two NULLs never conflict.
  Foreign keys are not enforced (the connection never turns them on). An
  \<^verbatim>\<open>AUTOINCREMENT\<close> key is one more than the largest key the table ever held.
\<close>

record station_row =
  st_id :: "string option"
  st_name :: string
  st_abbr :: string
  st_city :: "string option"
  st_county :: "string option"
  st_state :: "string option"
  st_zipcode :: "string option"
  st_created_at :: timestamp

record departure_row =
  dp_id :: nat
  dp_station_id :: string
  dp_destination :: string
  dp_platform :: "string option"
  dp_minutes :: int
  dp_direction :: string
  dp_color :: "string option"
  dp_length :: "int option"
  dp_bike_flag :: "int option"
  dp_delay :: "int option"
  dp_timestamp :: timestamp
  dp_date :: date
  dp_created_at :: timestamp

record daily_stat_row =
  ds_id :: nat
  ds_station_id :: string
  ds_date :: date
  ds_total_departures :: int
  ds_delayed_departures :: int
  ds_avg_delay_minutes :: rat
  ds_max_delay_minutes :: int
  ds_created_at :: timestamp

record database =
  tbl_stations :: "station_row list"
  tbl_departures :: "departure_row list"
  seq_departures :: nat
  tbl_daily_stats :: "daily_stat_row list"
  seq_daily_stats :: nat

definition empty_database :: database where
  "empty_database =
     \<lparr>tbl_stations = [], tbl_departures = [], seq_departures = 0,
      tbl_daily_stats = [], seq_daily_stats = 0\<rparr>"

definition next_rowid :: "nat \<Rightarrow> nat list \<Rightarrow> nat" where
  "next_rowid seq ids = Suc (fold max ids seq)"

definition not_null :: "string \<Rightarrow> 'a option \<Rightarrow> 'a result" where
  "not_null column v =
     (case v of
        None \<Rightarrow> Inl (IntegrityError (''NOT NULL constraint failed: '' @ column))
      | Some x \<Rightarrow> Inr x)"

subsection \<open>SQL expressions and aggregates\<close>

text \<open>
  A comparison with NULL is unknown (\<open>None\<close>); \<^verbatim>\<open>WHERE\<close> and \<^verbatim>\<open>CASE WHEN\<close> take a row only
  when the condition is true. An aggregate skips NULL; \<^verbatim>\<open>SUM\<close>, \<^verbatim>\<open>AVG\<close> and \<^verbatim>\<open>MAX\<close> of no
  value are NULL, \<^verbatim>\<open>COUNT\<close> of no value is 0.
\<close>

definition is_true :: "bool option \<Rightarrow> bool" where
  "is_true c = (c = Some True)"

definition sql_gt :: "int option \<Rightarrow> int \<Rightarrow> bool option" where
  "sql_gt v n = map_option (\<lambda>x. n < x) v"

definition sql_eq :: "int option \<Rightarrow> int \<Rightarrow> bool option" where
  "sql_eq v n = map_option (\<lambda>x. x = n) v"

definition sql_ne :: "int option \<Rightarrow> int \<Rightarrow> bool option" where
  "sql_ne v n = map_option (\<lambda>x. x \<noteq> n) v"

definition sql_abs :: "int option \<Rightarrow> int option" where
  "sql_abs v = map_option abs v"

definition non_null :: "'a option list \<Rightarrow> 'a list" where
  "non_null vs = map the (filter (\<lambda>v. v \<noteq> None) vs)"

definition sql_count :: "'a option list \<Rightarrow> int" where
  "sql_count vs = int (length (non_null vs))"

definition sql_sum :: "int option list \<Rightarrow> int option" where
  "sql_sum vs = (case non_null vs of [] \<Rightarrow> None | x # xs \<Rightarrow> Some (sum_list (x # xs)))"

definition sql_avg :: "int option list \<Rightarrow> rat option" where
  "sql_avg vs =
     (case non_null vs of
        [] \<Rightarrow> None
      | x # xs \<Rightarrow> Some (of_int (sum_list (x # xs)) / of_int (int (length (x # xs)))))"

definition sql_max :: "int option list \<Rightarrow> int option" where
  "sql_max vs = (case non_null vs of [] \<Rightarrow> None | x # xs \<Rightarrow> Some (fold max xs x))"

definition coalesce :: "'a option \<Rightarrow> 'a \<Rightarrow> 'a" where
  "coalesce v d = (case v of None \<Rightarrow> d | Some x \<Rightarrow> x)"

text \<open>\<^verbatim>\<open>ROUND(x, 1)\<close> of SQLite rounds a half away from zero.\<close>

definition sql_round1 :: "rat \<Rightarrow> rat" where
  "sql_round1 x =
     (if 0 \<le> x then of_int \<lfloor>x * 10 + 1 / 2\<rfloor> / 10 else - (of_int \<lfloor>- x * 10 + 1 / 2\<rfloor> / 10))"

text \<open>\<^verbatim>\<open>x or d\<close> on a fetched number: \<^verbatim>\<open>None\<close> and zero are false.\<close>

definition py_or :: "'a::zero option \<Rightarrow> 'a \<Rightarrow> 'a" where
  "py_or v d = (case v of None \<Rightarrow> d | Some x \<Rightarrow> if x = 0 then d else x)"


subsection \<open>Write paths of \<^verbatim>\<open>BartDatabase\<close>\<close>

text \<open>
  \<^verbatim>\<open>save_station\<close>: the tuple of parameters is built first (a missing required key raises
  there), then \<^verbatim>\<open>INSERT OR REPLACE\<close> checks the \<^verbatim>\<open>NOT NULL\<close> columns, deletes the rows
  whose primary key equals the new one and inserts the new row. \<open>utc_now\<close> is
  \<^verbatim>\<open>CURRENT_TIMESTAMP\<close>.
\<close>

definition save_station :: "database \<Rightarrow> station_data \<Rightarrow> timestamp \<Rightarrow> database result" where
  "save_station db station_data utc_now =
     and_then (py_item ''id'' (sd_id station_data)) (\<lambda>id.
     and_then (py_item ''name'' (sd_name station_data)) (\<lambda>name.
     and_then (py_item ''abbr'' (sd_abbr station_data)) (\<lambda>abbr.
     and_then (not_null ''stations.name'' name) (\<lambda>name'.
     and_then (not_null ''stations.abbr'' abbr) (\<lambda>abbr'.
       Inr (db\<lparr>tbl_stations :=
                 filter (\<lambda>r. \<not> (id \<noteq> None \<and> st_id r = id)) (tbl_stations db) @
                 [\<lparr>st_id = id, st_name = name', st_abbr = abbr',
                   st_city = py_get (sd_city station_data),
                   st_county = py_get (sd_county station_data),
                   st_state = py_get (sd_state station_data),
                   st_zipcode = py_get (sd_zipcode station_data),
                   st_created_at = utc_now\<rparr>]\<rparr>))))))"

text \<open>
  \<^verbatim>\<open>save_departure\<close>: a plain \<^verbatim>\<open>INSERT\<close>. \<^verbatim>\<open>timestamp\<close> and \<^verbatim>\<open>created_at\<close> take their default
  \<^verbatim>\<open>CURRENT_TIMESTAMP\<close> (\<open>utc_now\<close>); \<^verbatim>\<open>date\<close> is the day of \<^verbatim>\<open>datetime.now()\<close>, the local
  clock (\<open>local_today\<close>).
\<close>

definition save_departure ::
  "database \<Rightarrow> departure_data \<Rightarrow> timestamp \<Rightarrow> date \<Rightarrow> database result" where
  "save_departure db departure_data utc_now local_today =
     and_then (py_item ''station_id'' (dd_station_id departure_data)) (\<lambda>station_id.
     and_then (py_item ''destination'' (dd_destination departure_data)) (\<lambda>destination.
     and_then (py_item ''minutes'' (dd_minutes departure_data)) (\<lambda>minutes.
     and_then (py_item ''direction'' (dd_direction departure_data)) (\<lambda>direction.
     and_then (not_null ''departures.station_id'' station_id) (\<lambda>station_id'.
     and_then (not_null ''departures.destination'' destination) (\<lambda>destination'.
     and_then (not_null ''departures.minutes'' minutes) (\<lambda>minutes'.
     and_then (not_null ''departures.direction'' direction) (\<lambda>direction'.
       let rowid = next_rowid (seq_departures db) (map dp_id (tbl_departures db))
       in Inr (db\<lparr>tbl_departures :=
                    tbl_departures db @
                    [\<lparr>dp_id = rowid, dp_station_id = station_id',
                      dp_destination = destination',
                      dp_platform = py_get (dd_platform departure_data),
                      dp_minutes = minutes', dp_direction = direction',
                      dp_color = py_get (dd_color departure_data),
                      dp_length = py_get (dd_length departure_data),
                      dp_bike_flag = py_get (dd_bike_flag departure_data),
                      dp_delay = py_get_default (dd_delay departure_data) 0,
                      dp_timestamp = utc_now, dp_date = local_today,
                      dp_created_at = utc_now\<rparr>],
                  seq_departures := rowid\<rparr>)))))))))"

text \<open>
  \<^verbatim>\<open>update_daily_stats\<close>: the aggregate query over \<^verbatim>\<open>departures\<close>, then
  \<^verbatim>\<open>INSERT OR REPLACE INTO daily_stats\<close>. The statement gives no \<^verbatim>\<open>id\<close>, so the row takes
  the next \<^verbatim>\<open>AUTOINCREMENT\<close> key; \<^verbatim>\<open>id\<close> is the only key of the table, so the rows deleted
  are those with that \<^verbatim>\<open>id\<close>.
\<close>

definition daily_stats_query ::
  "database \<Rightarrow> string \<Rightarrow> date \<Rightarrow> int \<times> int option \<times> rat option \<times> int option" where
  "daily_stats_query db station_id date =
     (let rows = filter (\<lambda>r. dp_station_id r = station_id \<and> date_of (dp_created_at r) = date)
                   (tbl_departures db)
      in (int (length rows),
          sql_sum (map (\<lambda>r. Some (if is_true (sql_gt (dp_delay r) 0) then 1 else 0)) rows),
          sql_avg (map (\<lambda>r. if is_true (sql_gt (dp_delay r) 0) then dp_delay r else None) rows),
          sql_max (map (\<lambda>r. if is_true (sql_gt (dp_delay r) 0) then dp_delay r else Some 0) rows)))"

definition update_daily_stats :: "database \<Rightarrow> string \<Rightarrow> date \<Rightarrow> timestamp \<Rightarrow> database" where
  "update_daily_stats db station_id date utc_now =
     (case daily_stats_query db station_id date of
        (total_departures, delayed, avg_delay, max_delay) \<Rightarrow>
          let rowid = next_rowid (seq_daily_stats db) (map ds_id (tbl_daily_stats db))
          in db\<lparr>tbl_daily_stats :=
                  filter (\<lambda>r. ds_id r \<noteq> rowid) (tbl_daily_stats db) @
                  [\<lparr>ds_id = rowid, ds_station_id = station_id, ds_date = date,
                    ds_total_departures = py_or (Some total_departures) 0,
                    ds_delayed_departures = py_or delayed 0,
                    ds_avg_delay_minutes = py_or avg_delay 0,
                    ds_max_delay_minutes = py_or max_delay 0,
                    ds_created_at = utc_now\<rparr>],
                seq_daily_stats := rowid\<rparr>)"

text \<open>A run of \<^verbatim>\<open>save_departure\<close> calls, each with the dict and the two clocks of its moment.\<close>

fun save_departure_calls ::
  "database \<Rightarrow> (departure_data \<times> timestamp \<times> date) list \<Rightarrow> database result" where
  "save_departure_calls db [] = Inr db"
| "save_departure_calls db ((departure_data, utc_now, local_today) # rest) =
     (case save_departure db departure_data utc_now local_today of
        Inl e \<Rightarrow> Inl e
      | Inr db' \<Rightarrow> save_departure_calls db' rest)"

section \<open>The read handlers over the store\<close>

text \<open>
  A handler opens the store itself; \<open>store\<close> is the outcome of \<^verbatim>\<open>BartDatabase()\<close>, \<open>Inl\<close>
  when connecting or \<^verbatim>\<open>create_tables\<close> raised. \<open>utc_now\<close> is SQLite's \<^verbatim>\<open>'now'\<close>, \<open>now\<close> the
  text of \<^verbatim>\<open>datetime.now().isoformat()\<close>.
\<close>

subsection \<open>\<^verbatim>\<open>get_station_analytics\<close>\<close>

text \<open>
  \<^verbatim>\<open>GROUP BY d.destination\<close> over the rows that pass \<^verbatim>\<open>WHERE\<close>, one result row per
  destination, \<^verbatim>\<open>ORDER BY total_departures DESC\<close>. SQL leaves the order of groups with equal
  totals open; here they keep the order in which \<open>remdups\<close> lists the destinations.
\<close>

definition analytics_query :: "database \<Rightarrow> timestamp \<Rightarrow> (string \<times> int \<times> int \<times> rat) list" where
  "analytics_query db utc_now =
     (let rows = filter (\<lambda>d. utc_now - 7 * 86400 \<le> dp_timestamp d) (tbl_departures db)
      in sort_key (\<lambda>stat. - fst (snd stat))
           (map (\<lambda>destination.
                   let grp = filter (\<lambda>d. dp_destination d = destination) rows
                   in (destination,
                       int (length grp),
                       sql_count (map (\<lambda>d. if is_true (sql_ne (dp_delay d) 0)
                                             then Some (1 :: int) else None) grp),
                       sql_round1 (coalesce (sql_avg (map (\<lambda>d. sql_abs (dp_delay d)) grp)) 0)))
              (remdups (map dp_destination rows))))"

definition format_stat :: "string \<times> int \<times> int \<times> rat \<Rightarrow> json" where
  "format_stat stat =
     (case stat of (destination, total_departures, delayed, avg_delay) \<Rightarrow>
        JObj [(''destination'', JStr (if destination = [] then ''Unknown'' else destination)),
              (''total_departures'', JInt (py_or (Some total_departures) 0)),
              (''delayed_trains'', JInt (py_or (Some delayed) 0)),
              (''avg_delay_minutes'', JFloat (py_or (Some avg_delay) 0))])"

definition get_station_analytics ::
  "database result \<Rightarrow> timestamp \<Rightarrow> string \<Rightarrow> (error \<Rightarrow> string) \<Rightarrow> response" where
  "get_station_analytics store utc_now now str_e =
     (case and_then store (\<lambda>db. Inr (analytics_query db utc_now)) of
        Inr stats \<Rightarrow>
          (let analytics = map format_stat stats
           in if analytics = []
              then (JObj [(''status'', JStr ''No data available''),
                          (''timestamp'', JStr now),
                          (''data'', JArr [])], 200)
              else (JObj [(''status'', JStr ''Data available''),
                          (''timestamp'', JStr now),
                          (''data'', JArr analytics)], 200))
      | Inl e \<Rightarrow>
          (JObj [(''status'', JStr ''Error''),
                 (''timestamp'', JStr now),
                 (''error'', JStr (str_e e)),
                 (''data'', JArr [])], 500))"

subsection \<open>\<^verbatim>\<open>get_performance_data\<close>\<close>

text \<open>
  The second query of the handler names a column by a name that the typed row has no
  field for, so the model resolves it as the engine does: by name against the columns of
  \<^verbatim>\<open>CREATE TABLE departures\<close>, reading the cell at the position found. A name that is no
  column makes \<^verbatim>\<open>execute\<close> raise \<^verbatim>\<open>OperationalError\<close>, whatever rows the table holds.
\<close>

datatype sql_value = Null | Integer int | Text string | Datetime timestamp | Date date

definition departures_columns :: "string list" where
  "departures_columns =
     [''id'', ''station_id'', ''destination'', ''platform'', ''minutes'', ''direction'',
      ''color'', ''length'', ''bike_flag'', ''delay'', ''timestamp'', ''date'', ''created_at'']"

definition nullable :: "('a \<Rightarrow> sql_value) \<Rightarrow> 'a option \<Rightarrow> sql_value" where
  "nullable f v = (case v of None \<Rightarrow> Null | Some x \<Rightarrow> f x)"

definition departure_cells :: "departure_row \<Rightarrow> sql_value list" where
  "departure_cells r =
     [Integer (int (dp_id r)), Text (dp_station_id r), Text (dp_destination r),
      nullable Text (dp_platform r), Integer (dp_minutes r), Text (dp_direction r),
      nullable Text (dp_color r), nullable Integer (dp_length r),
      nullable Integer (dp_bike_flag r), nullable Integer (dp_delay r),
      Datetime (dp_timestamp r), Date (dp_date r), Datetime (dp_created_at r)]"

fun column_index :: "string list \<Rightarrow> string \<Rightarrow> nat option" where
  "column_index [] c = None"
| "column_index (x # xs) c = (if x = c then Some 0 else map_option Suc (column_index xs c))"

definition select_column :: "string \<Rightarrow> departure_row list \<Rightarrow> sql_value list result" where
  "select_column c rows =
     (case column_index departures_columns c of
        None \<Rightarrow> Inl (OperationalError (''no such column: '' @ c))
      | Some i \<Rightarrow> Inr (map (\<lambda>r. departure_cells r ! i) rows))"

definition count_distinct :: "sql_value list \<Rightarrow> int" where
  "count_distinct vs = int (length (remdups (filter (\<lambda>v. v \<noteq> Null) vs)))"

definition station_query :: "database \<Rightarrow> string \<Rightarrow> timestamp \<Rightarrow> int \<times> int \<times> rat option" where
  "station_query db station utc_now =
     (let rows = filter (\<lambda>r. dp_station_id r = station \<and>
                              date_of (dp_timestamp r) = date_of utc_now) (tbl_departures db)
      in (int (length rows),
          sql_count (map (\<lambda>r. if is_true (sql_eq (dp_delay r) 0)
                               then Some (1 :: int) else None) rows),
          sql_avg (map dp_delay rows)))"

definition system_query :: "database \<Rightarrow> timestamp \<Rightarrow> (int \<times> int) result" where
  "system_query db utc_now =
     (let rows = filter (\<lambda>r. date_of (dp_timestamp r) = date_of utc_now) (tbl_departures db)
      in and_then (select_column ''train_id'' rows) (\<lambda>train_ids.
           Inr (count_distinct train_ids,
                sql_count (map (\<lambda>r. if is_true (sql_gt (dp_delay r) 0)
                                     then Some (1 :: int) else None) rows))))"

text \<open>
  \<^verbatim>\<open>round(x, 1)\<close> on a float rounds to the nearest tenth, a half to the even tenth; on the
  integer \<^verbatim>\<open>0\<close> it returns the integer. \<^verbatim>\<open>a / b\<close> is true division.
\<close>

definition py_round1 :: "rat \<Rightarrow> rat" where
  "py_round1 x =
     (let f = \<lfloor>x * 10\<rfloor>; d = x * 10 - of_int f
      in of_int (if d < 1 / 2 then f else if 1 / 2 < d then f + 1
                 else if even f then f else f + 1) / 10)"

definition py_truediv :: "int \<Rightarrow> int \<Rightarrow> rat result" where
  "py_truediv a b = (if b = 0 then Inl ZeroDivisionError else Inr (of_int a / of_int b))"

text \<open>\<^verbatim>\<open>round((stats[1] / stats[0] * 100) if stats[0] > 0 else 0, 1)\<close>\<close>

definition on_time_rate :: "int \<Rightarrow> int \<Rightarrow> json result" where
  "on_time_rate on_time total_departures =
     (if 0 < total_departures
      then and_then (py_truediv on_time total_departures) (\<lambda>q. Inr (JFloat (py_round1 (q * 100))))
      else Inr (JInt 0))"

text \<open>\<^verbatim>\<open>round(stats[2] or 0, 1)\<close>\<close>

definition avg_delay_rounded :: "rat option \<Rightarrow> json" where
  "avg_delay_rounded v =
     (case v of None \<Rightarrow> JInt 0 | Some x \<Rightarrow> if x = 0 then JInt 0 else JFloat (py_round1 x))"

definition performance_data :: "database \<Rightarrow> string \<Rightarrow> timestamp \<Rightarrow> json result" where
  "performance_data db station utc_now =
     (case station_query db station utc_now of
        (total_departures, on_time, avg_delay) \<Rightarrow>
          and_then (system_query db utc_now) (\<lambda>system_stats.
          and_then (on_time_rate on_time total_departures) (\<lambda>rate.
            Inr (JObj [(''ridership'', JInt (py_or (Some total_departures) 0)),
                       (''onTimeRate'', rate),
                       (''avgDelay'', avg_delay_rounded avg_delay),
                       (''systemStatus'',
                        JObj [(''activeTrains'', JInt (py_or (Some (fst system_stats)) 0)),
                              (''delays'', JInt (py_or (Some (snd system_stats)) 0)),
                              (''elevators'', JObj [(''total'', JInt 50), (''down'', JInt 2)]),
                              (''parking'', JObj [(''capacity'', JInt 1000),
                                                  (''available'', JInt 850)])])]))))"

definition get_performance_data ::
  "database result \<Rightarrow> string \<Rightarrow> timestamp \<Rightarrow> (error \<Rightarrow> string) \<Rightarrow> response" where
  "get_performance_data store station utc_now str_e =
     (case and_then store (\<lambda>db. performance_data db station utc_now) of
        Inr data \<Rightarrow> (JObj [(''status'', JStr ''success''), (''data'', data)], 200)
      | Inl e \<Rightarrow> (JObj [(''status'', JStr ''error''), (''error'', JStr (str_e e))], 500))"


section \<open>Inputs for the examples\<close>

text \<open>A rendering of an exception for the examples: the name of its class.\<close>

definition exception_name :: "error \<Rightarrow> string" where
  "exception_name e =
     (case e of
        KeyError k \<Rightarrow> ''KeyError''
      | IndexError \<Rightarrow> ''IndexError''
      | TypeError \<Rightarrow> ''TypeError''
      | ValueError \<Rightarrow> ''ValueError''
      | ZeroDivisionError \<Rightarrow> ''ZeroDivisionError''
      | RequestError \<Rightarrow> ''RequestError''
      | OperationalError m \<Rightarrow> ''OperationalError''
      | IntegrityError m \<Rightarrow> ''IntegrityError'')"

text \<open>The text in which the feed sends a number of minutes: its decimal digits.\<close>

fun decimal_text :: "nat \<Rightarrow> string" where
  "decimal_text n =
     (if n < 10 then [char_of (48 + n)]
      else decimal_text (n div 10) @ [char_of (48 + n mod 10)])"

declare decimal_text.simps [simp del]

definition example_estimate :: "json \<Rightarrow> json" where
  "example_estimate minutes =
     JObj [(''minutes'', minutes), (''platform'', JStr ''2''), (''direction'', JStr ''North''),
           (''length'', JStr ''10'')]"

definition example_station :: "string \<Rightarrow> station_data" where
  "example_station name =
     \<lparr>sd_id = Given ''EMBR'', sd_name = Given name, sd_abbr = Given ''EMBR'',
      sd_city = Given ''San Francisco'', sd_county = Absent, sd_state = Given ''CA'',
      sd_zipcode = PyNone\<rparr>"

definition example_departure ::
  "string \<Rightarrow> int entry \<Rightarrow> timestamp \<Rightarrow> departure_data \<times> timestamp \<times> date" where
  "example_departure destination delay utc_now =
     (\<lparr>dd_station_id = Given ''EMBR'', dd_destination = Given destination,
       dd_platform = Given ''1'', dd_minutes = Given 5, dd_direction = Given ''North'',
       dd_color = Absent, dd_length = Given 10, dd_bike_flag = PyNone, dd_delay = delay\<rparr>,
      utc_now, date_of utc_now)"

definition example_row :: "string \<Rightarrow> int option \<Rightarrow> timestamp \<Rightarrow> departure_row" where
  "example_row destination delay utc_now =
     \<lparr>dp_id = 1, dp_station_id = ''EMBR'', dp_destination = destination,
      dp_platform = Some ''1'', dp_minutes = 5, dp_direction = ''North'', dp_color = None,
      dp_length = Some 10, dp_bike_flag = None, dp_delay = delay, dp_timestamp = utc_now,
      dp_date = date_of utc_now, dp_created_at = utc_now\<rparr>"

section \<open>Auxiliary facts\<close>

lemma key_in_object: "k \<in> fst ` set kv \<longleftrightarrow> map_of kv k \<noteq> None"
  by (simp add: map_of_eq_None_iff)

lemma and_then_Inr: "and_then r f = Inr y \<longleftrightarrow> (\<exists>v. r = Inr v \<and> f v = Inr y)"
  by (cases r) (simp_all add: and_then_def)

lemma py_item_Inr:
  "py_item k e = Inr v \<longleftrightarrow> (e = PyNone \<and> v = None) \<or> (\<exists>x. e = Given x \<and> v = Some x)"
  by (cases e) auto

lemma not_null_Inr: "not_null c v = Inr x \<longleftrightarrow> v = Some x"
  by (cases v) (simp_all add: not_null_def)

lemma py_or_Some: "py_or (Some x) 0 = x"
  by (simp add: py_or_def)

lemma py_or_None: "py_or None 0 = 0"
  by (simp add: py_or_def)

subsection \<open>Decimal texts and \<^verbatim>\<open>int()\<close>\<close>

lemma digit_char:
  "d < 10 \<Longrightarrow> is_digit (char_of (48 + d)) \<and> digit_val (char_of (48 + d :: nat)) = d"
  by (simp add: is_digit_def digit_val_def)

lemma decimal_text_digits: "decimal_text n \<noteq> [] \<and> (\<forall>c \<in> set (decimal_text n). is_digit c)"
proof (induction n rule: decimal_text.induct)
  case (1 n)
  show ?case
  proof (cases "n < 10")
    case True
    then show ?thesis using digit_char [of n] by (simp add: decimal_text.simps [of n])
  next
    case False
    have "n mod 10 < 10" by simp
    with False 1 show ?thesis using digit_char [of "n mod 10"]
      by (simp add: decimal_text.simps [of n])
  qed
qed

lemma decimal_snoc: "decimal (ds @ [c]) = 10 * decimal ds + digit_val c"
  by (simp add: decimal_def)

lemma decimal_decimal_text: "decimal (decimal_text n) = n"
proof (induction n rule: decimal_text.induct)
  case (1 n)
  show ?case
  proof (cases "n < 10")
    case True
    then show ?thesis using digit_char [of n] by (simp add: decimal_text.simps [of n] decimal_def)
  next
    case False
    have "n mod 10 < 10" by simp
    with False 1 show ?thesis using digit_char [of "n mod 10"]
      by (simp add: decimal_text.simps [of n] decimal_snoc)
  qed
qed

lemma digit_not_special:
  "is_digit c \<Longrightarrow> \<not> is_space c \<and> c \<noteq> CHR ''_'' \<and> c \<noteq> CHR ''-'' \<and> c \<noteq> CHR ''+''"
  by (auto simp: is_digit_def is_space_def)

lemma digits_of_digits: "s \<noteq> [] \<Longrightarrow> \<forall>c \<in> set s. is_digit c \<Longrightarrow> digits_of s = Some s"
proof (induction s rule: digits_of.induct)
  case 1
  then show ?case by simp
next
  case (2 c)
  then show ?case by simp
next
  case (3 c d r)
  then show ?case using digit_not_special [of d] by simp
qed

lemma strip_digits:
  assumes "\<forall>c \<in> set s. is_digit c"
  shows "strip s = s"
proof -
  have n: "\<forall>c \<in> set s. \<not> is_space c" using assms digit_not_special by blast
  have 1: "dropWhile is_space s = s" using n by (cases s) auto
  have 2: "dropWhile is_space (rev s) = rev s" using n by (cases "rev s") auto
  show ?thesis by (simp add: strip_def 1 2)
qed

lemma py_int_str_decimal_text: "py_int_str (decimal_text n) = Inr (int n)"
proof -
  obtain c r where s: "decimal_text n = c # r"
    using decimal_text_digits [of n] by (cases "decimal_text n") auto
  have d: "\<forall>c \<in> set (decimal_text n). is_digit c" using decimal_text_digits by blast
  have c: "is_digit c" using d s by simp
  have "digits_of (c # r) = Some (c # r)" using digits_of_digits [of "c # r"] d s by simp
  moreover have "strip (c # r) = c # r" using strip_digits [OF d] s by simp
  ultimately show ?thesis
    using digit_not_special [OF c] decimal_decimal_text [of n]
    by (simp add: py_int_str_def s)
qed

lemma decimal_text_not_leaving: "decimal_text n \<noteq> ''Leaving''"
proof
  assume "decimal_text n = ''Leaving''"
  then have "is_digit CHR ''L''" using decimal_text_digits [of n] by simp
  then show False by (simp add: is_digit_def)
qed


section \<open>The feed adapter: properties\<close>

text \<open>
  Claim C2. For an estimate whose other fields are present and whose length parses, the
  record built by \<^verbatim>\<open>get_departures\<close> has minutes 0 when the minutes field is the string
  \<^verbatim>\<open>Leaving\<close>; for any other minutes value that \<^verbatim>\<open>int()\<close> accepts it has the integer parsed,
  and in particular the number \<open>k\<close> when the feed sends \<open>k\<close> as its decimal text or as a
  JSON integer.
\<close>

theorem departure_minutes_normalized:
  assumes "py_getitem estimate ''minutes'' = Inr m"
    and "py_getitem estimate ''platform'' = Inr platform"
    and "py_getitem estimate ''direction'' = Inr direction"
    and "py_getitem estimate ''length'' = Inr l"
    and "py_int l = Inr len"
  shows "(m = JStr ''Leaving'' \<longrightarrow>
            departure_record now destination estimate =
              Inr (JObj [(''timestamp'', JStr now), (''destination'', destination),
                         (''minutes'', JInt 0), (''platform'', platform),
                         (''direction'', direction), (''delay'', JInt 0),
                         (''length'', JInt len)])) \<and>
         (m \<noteq> JStr ''Leaving'' \<longrightarrow> py_int m = Inr n \<longrightarrow>
            departure_record now destination estimate =
              Inr (JObj [(''timestamp'', JStr now), (''destination'', destination),
                         (''minutes'', JInt n), (''platform'', platform),
                         (''direction'', direction), (''delay'', JInt 0),
                         (''length'', JInt len)])) \<and>
         (m = JStr (decimal_text k) \<or> m = JInt (int k) \<longrightarrow>
            departure_record now destination estimate =
              Inr (JObj [(''timestamp'', JStr now), (''destination'', destination),
                         (''minutes'', JInt (int k)), (''platform'', platform),
                         (''direction'', direction), (''delay'', JInt 0),
                         (''length'', JInt len)]))"
proof -
  have zero: "py_int (JStr ''0'') = Inr 0"
    by (simp add: py_int_str_def strip_def is_space_def is_digit_def decimal_def digit_val_def)
  have dec: "py_int (JStr (decimal_text k)) = Inr (int k)"
    by (simp add: py_int_str_decimal_text)
  have other: "JStr (decimal_text k) \<noteq> JStr ''Leaving''"
    by (simp add: decimal_text_not_leaving)
  show ?thesis
    using assms zero dec other
    by (auto simp add: departure_record_def and_then_def simp del: py_int.simps(4))
qed

theorem departure_minutes_normalized_witness:
  "departure_record ''12:00'' (JStr ''Daly City'') (example_estimate (JStr ''Leaving'')) =
     Inr (JObj [(''timestamp'', JStr ''12:00''), (''destination'', JStr ''Daly City''),
                (''minutes'', JInt 0), (''platform'', JStr ''2''),
                (''direction'', JStr ''North''), (''delay'', JInt 0), (''length'', JInt 10)]) \<and>
   departure_record ''12:00'' (JStr ''Daly City'') (example_estimate (JStr (decimal_text 7))) =
     Inr (JObj [(''timestamp'', JStr ''12:00''), (''destination'', JStr ''Daly City''),
                (''minutes'', JInt 7), (''platform'', JStr ''2''),
                (''direction'', JStr ''North''), (''delay'', JInt 0), (''length'', JInt 10)]) \<and>
   decimal_text 7 = ''7''"
proof -
  have len: "py_int (JStr ''10'') = Inr 10"
    by (simp add: py_int_str_def strip_def is_space_def is_digit_def decimal_def digit_val_def)
  have a: "departure_record ''12:00'' (JStr ''Daly City'') (example_estimate (JStr ''Leaving'')) =
     Inr (JObj [(''timestamp'', JStr ''12:00''), (''destination'', JStr ''Daly City''),
                (''minutes'', JInt 0), (''platform'', JStr ''2''),
                (''direction'', JStr ''North''), (''delay'', JInt 0), (''length'', JInt 10)])"
    using departure_minutes_normalized
      [of "example_estimate (JStr ''Leaving'')" "JStr ''Leaving''" "JStr ''2''" "JStr ''North''"
          "JStr ''10''" 10 "''12:00''" "JStr ''Daly City''" 0 0] len
    by (simp add: example_estimate_def)
  have b: "departure_record ''12:00'' (JStr ''Daly City'') (example_estimate (JStr (decimal_text 7))) =
     Inr (JObj [(''timestamp'', JStr ''12:00''), (''destination'', JStr ''Daly City''),
                (''minutes'', JInt 7), (''platform'', JStr ''2''),
                (''direction'', JStr ''North''), (''delay'', JInt 0), (''length'', JInt 10)])"
    using departure_minutes_normalized
      [of "example_estimate (JStr (decimal_text 7))" "JStr (decimal_text 7)" "JStr ''2''"
          "JStr ''North''" "JStr ''10''" 10 "''12:00''" "JStr ''Daly City''" 0 7] len
    by (simp add: example_estimate_def)
  have c: "decimal_text 7 = ''7''" by code_simp
  from a b c show ?thesis by simp
qed

text \<open>
  Claim C3. When the payload is an object without the key \<^verbatim>\<open>root\<close>, or its root is an
  object without the key \<^verbatim>\<open>station\<close>, or the first station block is an object without
  the key \<^verbatim>\<open>etd\<close>, \<^verbatim>\<open>get_departures\<close> answers with status code 200, the status text of
  success and an empty list of departures.
\<close>

theorem missing_keys_empty_success:
  assumes "data = JObj kv"
    and "map_of kv ''root'' = None \<or>
         (\<exists>r. map_of kv ''root'' = Some (JObj r) \<and>
            (map_of r ''station'' = None \<or>
             (\<exists>sd rest. map_of r ''station'' = Some (JArr (JObj sd # rest)) \<and>
                         map_of sd ''etd'' = None)))"
  shows "get_departures (Inr data) now str_e =
           (JObj [(''status'', JStr ''Data available''),
                  (''timestamp'', JStr now),
                  (''departures'', JArr [])], 200)"
  using assms
  by (auto simp add: get_departures_def collect_departures_def and_then_def py_nth_def
      key_in_object)

theorem missing_keys_empty_success_witness:
  "get_departures (Inr (JObj [(''message'', JStr ''down'')])) ''12:00'' exception_name =
     (JObj [(''status'', JStr ''Data available''), (''timestamp'', JStr ''12:00''),
            (''departures'', JArr [])], 200) \<and>
   get_departures (Inr (JObj [(''root'', JObj [(''message'', JStr ''none'')])])) ''12:00''
       exception_name =
     (JObj [(''status'', JStr ''Data available''), (''timestamp'', JStr ''12:00''),
            (''departures'', JArr [])], 200) \<and>
   get_departures
       (Inr (JObj [(''root'', JObj [(''station'', JArr [JObj [(''name'', JStr ''Embarcadero'')]])])]))
       ''12:00'' exception_name =
     (JObj [(''status'', JStr ''Data available''), (''timestamp'', JStr ''12:00''),
            (''departures'', JArr [])], 200)"
  using
    missing_keys_empty_success
      [of "JObj [(''message'', JStr ''down'')]" "[(''message'', JStr ''down'')]"
          "''12:00''" exception_name]
    missing_keys_empty_success
      [of "JObj [(''root'', JObj [(''message'', JStr ''none'')])]"
          "[(''root'', JObj [(''message'', JStr ''none'')])]" "''12:00''" exception_name]
    missing_keys_empty_success
      [of "JObj [(''root'', JObj [(''station'', JArr [JObj [(''name'', JStr ''Embarcadero'')]])])]"
          "[(''root'', JObj [(''station'', JArr [JObj [(''name'', JStr ''Embarcadero'')]])])]"
          "''12:00''" exception_name]
  by simp

text \<open>
  Claim C10. When the key \<^verbatim>\<open>station\<close> is present and holds an empty list, indexing its
  first block raises \<^verbatim>\<open>IndexError\<close>, and \<^verbatim>\<open>get_departures\<close> answers with the error
  envelope and status code 500.
\<close>

theorem empty_station_list_error:
  assumes "data = JObj kv"
    and "map_of kv ''root'' = Some (JObj r)"
    and "map_of r ''station'' = Some (JArr [])"
  shows "get_departures (Inr data) now str_e =
           (JObj [(''status'', JStr ''Error''),
                  (''timestamp'', JStr now),
                  (''error'', JStr (str_e IndexError)),
                  (''departures'', JArr [])], 500)"
  using assms
  by (simp add: get_departures_def collect_departures_def and_then_def py_nth_def key_in_object)

theorem empty_station_list_error_witness:
  "get_departures (Inr (JObj [(''root'', JObj [(''station'', JArr [])])])) ''12:00'' exception_name =
     (JObj [(''status'', JStr ''Error''), (''timestamp'', JStr ''12:00''),
            (''error'', JStr ''IndexError''), (''departures'', JArr [])], 500)"
  using empty_station_list_error
    [of "JObj [(''root'', JObj [(''station'', JArr [])])]" "[(''root'', JObj [(''station'', JArr [])])]"
        "[(''station'', JArr [])]" "''12:00''" exception_name]
  by (simp add: exception_name_def)


section \<open>The read handlers: properties\<close>

subsection \<open>Rounding\<close>

lemma py_round1_tenth: "\<exists>k::int. py_round1 x = of_int k / 10"
  unfolding py_round1_def Let_def by blast

lemma py_round1_near: "\<bar>py_round1 x - x\<bar> \<le> 1 / 20"
proof -
  define f where "f = \<lfloor>x * 10\<rfloor>"
  define d where "d = x * 10 - of_int f"
  have d0: "0 \<le> d" and d1: "d < 1" unfolding d_def f_def by linarith+
  have x: "x = (of_int f + d) / 10" unfolding d_def by simp
  show ?thesis
    unfolding py_round1_def Let_def f_def [symmetric] d_def [symmetric]
    using d0 d1 by (auto simp: x field_simps abs_if)
qed

text \<open>
  Claim C7. The on-time rate never raises, and in particular never divides by zero: with
  no departure it is the integer 0; with \<open>n > 0\<close> departures it is a float, a whole number
  of tenths at most one twentieth away from \<open>on_time / n * 100\<close>; for 7 out of 10 it is
  70.0.
\<close>

theorem on_time_rate_guarded:
  "on_time_rate on_time 0 = Inr (JInt 0) \<and>
   (0 < n \<longrightarrow>
      (\<exists>r. on_time_rate on_time n = Inr (JFloat r) \<and>
           (\<exists>k::int. r = of_int k / 10) \<and>
           \<bar>r - of_int on_time / of_int n * 100\<bar> \<le> 1 / 20)) \<and>
   on_time_rate 7 10 = Inr (JFloat 70) \<and>
   (\<forall>e. on_time_rate on_time n \<noteq> Inl e)"
proof (intro conjI impI allI)
  show "on_time_rate on_time 0 = Inr (JInt 0)" by (simp add: on_time_rate_def)
  show "on_time_rate 7 10 = Inr (JFloat 70)"
    by (simp add: on_time_rate_def py_truediv_def and_then_def py_round1_def)
  show "on_time_rate on_time n \<noteq> Inl e" for e
    by (simp add: on_time_rate_def py_truediv_def and_then_def)
  assume "0 < n"
  then have "on_time_rate on_time n = Inr (JFloat (py_round1 (of_int on_time / of_int n * 100)))"
    by (simp add: on_time_rate_def py_truediv_def and_then_def)
  then show "\<exists>r. on_time_rate on_time n = Inr (JFloat r) \<and>
        (\<exists>k::int. r = of_int k / 10) \<and>
        \<bar>r - of_int on_time / of_int n * 100\<bar> \<le> 1 / 20"
    using py_round1_tenth py_round1_near by blast
qed

theorem on_time_rate_guarded_witness:
  "(0::int) < 3 \<and> on_time_rate 1 3 = Inr (JFloat (333 / 10)) \<and> on_time_rate 1 0 = Inr (JInt 0)"
proof -
  have e: "on_time_rate 1 3 = Inr (JFloat (333 / 10))" by code_simp
  from on_time_rate_guarded [of 1 3] e show ?thesis by simp
qed

subsection \<open>The performance snapshot\<close>

lemma select_train_id:
  "select_column ''train_id'' rows = Inl (OperationalError ''no such column: train_id'')"
  by (simp add: select_column_def departures_columns_def)

text \<open>
  Claim C1. The claim says the snapshot completes and returns the performance object.
  The second query of the handler counts the distinct values of \<^verbatim>\<open>train_id\<close>, and
  \<^verbatim>\<open>create_tables\<close> gives \<^verbatim>\<open>departures\<close> no such column: for every store that could be
  opened, the handler answers with its error envelope and status code 500.
\<close>

theorem performance_snapshot_fails:
  "get_performance_data (Inr db) station utc_now str_e =
     (JObj [(''status'', JStr ''error''),
            (''error'', JStr (str_e (OperationalError ''no such column: train_id'')))], 500)"
  by (simp add: get_performance_data_def performance_data_def system_query_def select_train_id
      and_then_def split: prod.splits)

subsection \<open>Error envelopes\<close>

text \<open>
  Claim C9, as stated, fails: after a transport error \<^verbatim>\<open>get_stations\<close> answers with an object
  that has the error message only, no status field and no data, and the error envelope of
  \<^verbatim>\<open>get_performance_data\<close> has no data field.
\<close>

theorem error_envelope_counterexample:
  "get_stations (Inl RequestError) exception_name =
     (JObj [(''error'', JStr ''RequestError'')], 500) \<and>
   py_contains (fst (get_stations (Inl RequestError) exception_name)) ''status'' = Inr False \<and>
   py_contains (fst (get_performance_data (Inl (OperationalError ''unable to open database file''))
                       ''EMBR'' 0 exception_name)) ''data'' = Inr False"
  by (simp add: get_stations_def get_performance_data_def and_then_def exception_name_def)

text \<open>
  Claim C9, amended. Whenever the guarded body of a handler raises (the upstream call
  failed, the payload did not have the expected shape, the store could not be opened or
  a query failed), the handler answers with status code 500 and a JSON object holding the
  error message: \<^verbatim>\<open>get_departures\<close> and \<^verbatim>\<open>get_station_analytics\<close> add the status
  \<^verbatim>\<open>Error\<close>, a timestamp and an empty list; \<^verbatim>\<open>get_performance_data\<close> adds the status
  \<^verbatim>\<open>error\<close> only; \<^verbatim>\<open>get_stations\<close> adds nothing.
\<close>

theorem error_envelopes:
  "((upstream = Inl e \<or> (\<exists>data. upstream = Inr data \<and> collect_stations data = Inl e)) \<longrightarrow>
      get_stations upstream str_e = (JObj [(''error'', JStr (str_e e))], 500)) \<and>
   ((upstream = Inl e \<or> (\<exists>data. upstream = Inr data \<and> collect_departures now data = Inl e)) \<longrightarrow>
      get_departures upstream now str_e =
        (JObj [(''status'', JStr ''Error''), (''timestamp'', JStr now),
               (''error'', JStr (str_e e)), (''departures'', JArr [])], 500)) \<and>
   (store = Inl e \<longrightarrow>
      get_station_analytics store utc_now now str_e =
        (JObj [(''status'', JStr ''Error''), (''timestamp'', JStr now),
               (''error'', JStr (str_e e)), (''data'', JArr [])], 500)) \<and>
   ((store = Inl e \<or> (\<exists>db. store = Inr db \<and> performance_data db station utc_now = Inl e)) \<longrightarrow>
      get_performance_data store station utc_now str_e =
        (JObj [(''status'', JStr ''error''), (''error'', JStr (str_e e))], 500))"
  by (auto simp add: get_stations_def get_departures_def get_station_analytics_def
      get_performance_data_def and_then_def)

theorem error_envelopes_witness:
  "get_stations (Inr (JObj [])) exception_name = (JObj [(''error'', JStr ''KeyError'')], 500) \<and>
   get_departures (Inl RequestError) ''12:00'' exception_name =
     (JObj [(''status'', JStr ''Error''), (''timestamp'', JStr ''12:00''),
            (''error'', JStr ''RequestError''), (''departures'', JArr [])], 500) \<and>
   get_station_analytics (Inl (OperationalError ''unable to open database file'')) 0 ''12:00''
       exception_name =
     (JObj [(''status'', JStr ''Error''), (''timestamp'', JStr ''12:00''),
            (''error'', JStr ''OperationalError''), (''data'', JArr [])], 500) \<and>
   get_performance_data (Inl (OperationalError ''unable to open database file'')) ''EMBR'' 0
       exception_name =
     (JObj [(''status'', JStr ''error''), (''error'', JStr ''OperationalError'')], 500)"
proof -
  have k: "collect_stations (JObj []) = Inl (KeyError ''root'')"
    by (simp add: collect_stations_def and_then_def)
  show ?thesis
    using
      error_envelopes [where upstream = "Inr (JObj [])" and e = "KeyError ''root''"
                         and str_e = exception_name]
      error_envelopes [where upstream = "Inl RequestError" and e = RequestError
                         and now = "''12:00''" and str_e = exception_name]
      error_envelopes [where store = "Inl (OperationalError ''unable to open database file'')"
                         and e = "OperationalError ''unable to open database file''"
                         and now = "''12:00''" and str_e = exception_name
                         and utc_now = 0 and station = "''EMBR''"]
      k
    by (simp add: exception_name_def)
qed


subsection \<open>The seven-day window of the destination analytics\<close>

lemma analytics_query_recent:
  "analytics_query
     (db\<lparr>tbl_departures := filter (\<lambda>d. \<not> dp_timestamp d < utc_now - 7 * 86400) (tbl_departures db)\<rparr>)
     utc_now = analytics_query db utc_now"
  by (simp add: analytics_query_def not_less)

lemma analytics_query_member:
  assumes "stat \<in> set (analytics_query db utc_now)"
  shows "fst (snd stat) =
           int (length (filter (\<lambda>d. dp_destination d = fst stat \<and> utc_now - 7 * 86400 \<le> dp_timestamp d)
                  (tbl_departures db)))"
  using assms by (auto simp: analytics_query_def Let_def conj_commute)

lemma analytics_query_destinations:
  "fst ` set (analytics_query db utc_now) =
     dp_destination ` {d \<in> set (tbl_departures db). utc_now - 7 * 86400 \<le> dp_timestamp d}"
  by (auto simp: analytics_query_def Let_def image_iff)

lemma analytics_query_empty:
  assumes "\<forall>d \<in> set (tbl_departures db). dp_timestamp d < utc_now - 7 * 86400"
  shows "analytics_query db utc_now = []"
proof -
  have "filter (\<lambda>d. utc_now - 7 * 86400 \<le> dp_timestamp d) (tbl_departures db) = []"
    using assms by (auto simp: filter_empty_conv)
  then show ?thesis by (simp add: analytics_query_def)
qed

text \<open>
  Claim C8. The destination analytics reads only the departures whose timestamp is not
  older than seven days before the moment of the query (a row exactly seven days old is
  read): deleting every older row leaves the response unchanged, the total of each group
  counts the rows of its destination inside the window, the destinations listed are those
  of the rows inside the window, and when every row is older the response has status code
  200, the status \<^verbatim>\<open>No data available\<close> and an empty list.
\<close>

theorem analytics_seven_day_window:
  "get_station_analytics
     (Inr (db\<lparr>tbl_departures :=
                filter (\<lambda>d. \<not> dp_timestamp d < utc_now - 7 * 86400) (tbl_departures db)\<rparr>))
     utc_now now str_e = get_station_analytics (Inr db) utc_now now str_e \<and>
   (\<forall>stat \<in> set (analytics_query db utc_now).
      fst (snd stat) =
        int (length (filter (\<lambda>d. dp_destination d = fst stat \<and> utc_now - 7 * 86400 \<le> dp_timestamp d)
               (tbl_departures db)))) \<and>
   fst ` set (analytics_query db utc_now) =
     dp_destination ` {d \<in> set (tbl_departures db). utc_now - 7 * 86400 \<le> dp_timestamp d} \<and>
   ((\<forall>d \<in> set (tbl_departures db). dp_timestamp d < utc_now - 7 * 86400) \<longrightarrow>
      get_station_analytics (Inr db) utc_now now str_e =
        (JObj [(''status'', JStr ''No data available''), (''timestamp'', JStr now),
               (''data'', JArr [])], 200))"
proof (intro conjI ballI impI)
  show "get_station_analytics
     (Inr (db\<lparr>tbl_departures :=
                filter (\<lambda>d. \<not> dp_timestamp d < utc_now - 7 * 86400) (tbl_departures db)\<rparr>))
     utc_now now str_e = get_station_analytics (Inr db) utc_now now str_e"
    unfolding get_station_analytics_def and_then_def sum.case analytics_query_recent ..
  show "fst ` set (analytics_query db utc_now) =
     dp_destination ` {d \<in> set (tbl_departures db). utc_now - 7 * 86400 \<le> dp_timestamp d}"
    by (rule analytics_query_destinations)
next
  fix stat
  assume "stat \<in> set (analytics_query db utc_now)"
  then show "fst (snd stat) =
        int (length (filter (\<lambda>d. dp_destination d = fst stat \<and> utc_now - 7 * 86400 \<le> dp_timestamp d)
               (tbl_departures db)))"
    by (rule analytics_query_member)
next
  assume "\<forall>d \<in> set (tbl_departures db). dp_timestamp d < utc_now - 7 * 86400"
  then show "get_station_analytics (Inr db) utc_now now str_e =
        (JObj [(''status'', JStr ''No data available''), (''timestamp'', JStr now),
               (''data'', JArr [])], 200)"
    by (simp add: get_station_analytics_def and_then_def analytics_query_empty)
qed

theorem analytics_seven_day_window_witness:
  "get_station_analytics
     (Inr (empty_database\<lparr>tbl_departures := [example_row ''Richmond'' (Some 4) 0]\<rparr>))
     (8 * 86400) ''12:00'' exception_name =
     (JObj [(''status'', JStr ''No data available''), (''timestamp'', JStr ''12:00''),
            (''data'', JArr [])], 200) \<and>
   get_station_analytics
     (Inr (empty_database\<lparr>tbl_departures :=
             [example_row ''Richmond'' (Some 4) 0, example_row ''Millbrae'' (Some (- 3)) 86400,
              example_row ''Millbrae'' None 86399]\<rparr>))
     (8 * 86400) ''12:00'' exception_name =
     (JObj [(''status'', JStr ''Data available''), (''timestamp'', JStr ''12:00''),
            (''data'', JArr [JObj [(''destination'', JStr ''Millbrae''),
                                   (''total_departures'', JInt 1),
                                   (''delayed_trains'', JInt 1),
                                   (''avg_delay_minutes'', JFloat 3)]])], 200)"
proof -
  let ?old = "empty_database\<lparr>tbl_departures := [example_row ''Richmond'' (Some 4) 0]\<rparr>"
  let ?mixed = "empty_database\<lparr>tbl_departures :=
             [example_row ''Richmond'' (Some 4) 0, example_row ''Millbrae'' (Some (- 3)) 86400,
              example_row ''Millbrae'' None 86399]\<rparr>"
  have old: "\<forall>d \<in> set (tbl_departures ?old). dp_timestamp d < 8 * 86400 - 7 * 86400"
    by (simp add: example_row_def)
  have a: "get_station_analytics (Inr ?old) (8 * 86400) ''12:00'' exception_name =
     (JObj [(''status'', JStr ''No data available''), (''timestamp'', JStr ''12:00''),
            (''data'', JArr [])], 200)"
    using analytics_seven_day_window
      [where db = "?old" and utc_now = "8 * 86400" and now = "''12:00''" and str_e = exception_name]
      old by blast
  have r: "sql_round1 3 = 3" by code_simp
  have recent: "get_station_analytics
     (Inr (empty_database\<lparr>tbl_departures := [example_row ''Millbrae'' (Some (- 3)) 86400]\<rparr>))
     (8 * 86400) ''12:00'' exception_name =
     (JObj [(''status'', JStr ''Data available''), (''timestamp'', JStr ''12:00''),
            (''data'', JArr [JObj [(''destination'', JStr ''Millbrae''),
                                   (''total_departures'', JInt 1),
                                   (''delayed_trains'', JInt 1),
                                   (''avg_delay_minutes'', JFloat 3)]])], 200)"
    by (simp add: get_station_analytics_def and_then_def analytics_query_def example_row_def
        empty_database_def format_stat_def py_or_def sql_count_def sql_avg_def sql_abs_def
        sql_ne_def is_true_def non_null_def coalesce_def r Let_def)
  have b: "get_station_analytics (Inr ?mixed) (8 * 86400) ''12:00'' exception_name =
     get_station_analytics
     (Inr (empty_database\<lparr>tbl_departures := [example_row ''Millbrae'' (Some (- 3)) 86400]\<rparr>))
     (8 * 86400) ''12:00'' exception_name"
    using analytics_seven_day_window
      [where db = "?mixed" and utc_now = "8 * 86400" and now = "''12:00''"
         and str_e = exception_name, THEN conjunct1, symmetric]
    by (simp add: example_row_def empty_database_def)
  from a b recent show ?thesis by simp
qed

section \<open>The write paths: properties\<close>

subsection \<open>Upserting a station\<close>

text \<open>
  Claim C4. After two successful upserts of the same station identifier, the table
  \<^verbatim>\<open>stations\<close> holds exactly one row with that identifier, and the row has the attributes
  of the second upsert.
\<close>

theorem save_station_twice:
  assumes "sd_id sd1 = Given i" and "sd_id sd2 = Given i"
    and "save_station db sd1 t1 = Inr db1"
    and "save_station db1 sd2 t2 = Inr db2"
  shows "\<exists>name abbr. sd_name sd2 = Given name \<and> sd_abbr sd2 = Given abbr \<and>
           filter (\<lambda>r. st_id r = Some i) (tbl_stations db2) =
             [\<lparr>st_id = Some i, st_name = name, st_abbr = abbr,
               st_city = py_get (sd_city sd2), st_county = py_get (sd_county sd2),
               st_state = py_get (sd_state sd2), st_zipcode = py_get (sd_zipcode sd2),
               st_created_at = t2\<rparr>]"
proof -
  from assms(2,4) obtain name abbr
    where n: "sd_name sd2 = Given name" and a: "sd_abbr sd2 = Given abbr"
    by (auto simp: save_station_def and_then_Inr py_item_Inr not_null_Inr)
  from assms(2,4) n a show ?thesis
    by (auto simp: save_station_def and_then_def not_null_def filter_empty_conv)
qed

theorem save_station_twice_witness:
  "\<exists>db1 db2.
     save_station empty_database (example_station ''Embarcadero'') 10 = Inr db1 \<and>
     save_station db1 (example_station ''Embarcadero Station'') 20 = Inr db2 \<and>
     map st_name (filter (\<lambda>r. st_id r = Some ''EMBR'') (tbl_stations db2)) =
       [''Embarcadero Station'']"
proof -
  obtain db1 where 1: "save_station empty_database (example_station ''Embarcadero'') 10 = Inr db1"
    by (simp add: save_station_def example_station_def and_then_def not_null_def)
  obtain db2 where 2: "save_station db1 (example_station ''Embarcadero Station'') 20 = Inr db2"
    by (simp add: save_station_def example_station_def and_then_def not_null_def)
  have i: "sd_id (example_station ''Embarcadero'') = Given ''EMBR''"
          "sd_id (example_station ''Embarcadero Station'') = Given ''EMBR''"
    by (simp_all add: example_station_def)
  from save_station_twice [OF i 1 2]
  have m: "map st_name (filter (\<lambda>r. st_id r = Some ''EMBR'') (tbl_stations db2)) =
       [''Embarcadero Station'']"
    by (auto simp: example_station_def)
  have "save_station empty_database (example_station ''Embarcadero'') 10 = Inr db1 \<and>
     save_station db1 (example_station ''Embarcadero Station'') 20 = Inr db2 \<and>
     map st_name (filter (\<lambda>r. st_id r = Some ''EMBR'') (tbl_stations db2)) =
       [''Embarcadero Station'']"
    using 1 2 m by (intro conjI)
  then show ?thesis by - (rule exI [of _ db1], rule exI [of _ db2], assumption)
qed

subsection \<open>Recomputing the daily stats\<close>

lemma fold_max_ge: "(a::nat) \<le> fold max xs a"
proof (induction xs arbitrary: a)
  case Nil
  show ?case by simp
next
  case (Cons x xs)
  have "a \<le> max x a" by simp
  also have "\<dots> \<le> fold max xs (max x a)" by (rule Cons.IH)
  finally show ?case by simp
qed

lemma next_rowid_fresh: "seq < next_rowid seq ids"
  using fold_max_ge [of seq ids] by (simp add: next_rowid_def)

lemma update_daily_stats_row:
  "\<exists>row. tbl_daily_stats (update_daily_stats db s d t) =
            filter (\<lambda>r. ds_id r \<noteq> next_rowid (seq_daily_stats db) (map ds_id (tbl_daily_stats db)))
              (tbl_daily_stats db) @ [row] \<and>
         ds_id row = next_rowid (seq_daily_stats db) (map ds_id (tbl_daily_stats db)) \<and>
         ds_station_id row = s \<and> ds_date row = d"
  by (cases "daily_stats_query db s d") (simp add: update_daily_stats_def Let_def)

lemma update_daily_stats_seq:
  "seq_daily_stats (update_daily_stats db s d t) =
     next_rowid (seq_daily_stats db) (map ds_id (tbl_daily_stats db))"
  by (cases "daily_stats_query db s d") (simp add: update_daily_stats_def Let_def)

lemma update_daily_stats_twice_keeps_both:
  "2 \<le> length (filter (\<lambda>r. ds_station_id r = s \<and> ds_date r = d)
          (tbl_daily_stats (update_daily_stats (update_daily_stats db s d t1) s d t2)))"
proof -
  define id1 where "id1 = next_rowid (seq_daily_stats db) (map ds_id (tbl_daily_stats db))"
  define db1 where "db1 = update_daily_stats db s d t1"
  obtain xs row1 where t1: "tbl_daily_stats db1 = xs @ [row1]"
    and r1: "ds_id row1 = id1" "ds_station_id row1 = s" "ds_date row1 = d"
    unfolding db1_def id1_def using update_daily_stats_row [of db s d t1] by blast
  have s1: "seq_daily_stats db1 = id1"
    unfolding db1_def id1_def by (rule update_daily_stats_seq)
  define id2 where "id2 = next_rowid (seq_daily_stats db1) (map ds_id (tbl_daily_stats db1))"
  have lt: "id1 < id2" unfolding id2_def s1 by (rule next_rowid_fresh)
  obtain row2 where t2: "tbl_daily_stats (update_daily_stats db1 s d t2) =
      filter (\<lambda>r. ds_id r \<noteq> id2) (tbl_daily_stats db1) @ [row2]"
    and r2: "ds_station_id row2 = s" "ds_date row2 = d"
    unfolding id2_def using update_daily_stats_row [of db1 s d t2] by blast
  show ?thesis
    unfolding db1_def [symmetric] t2 t1 using r1 r2 lt by simp
qed

text \<open>
  Claim C6. The claim says that recomputing twice leaves one row for the key. On the
  empty store, two runs of \<^verbatim>\<open>update_daily_stats\<close> for station \<^verbatim>\<open>EMBR\<close> and one date leave
  two rows for that key, with the ids 1 and 2: the table has no key on (station, date),
  so \<^verbatim>\<open>INSERT OR REPLACE\<close> replaces nothing (\<open>update_daily_stats_twice_keeps_both\<close>
  shows the same from every store).
\<close>

theorem update_daily_stats_twice_example:
  "map ds_id (tbl_daily_stats
     (update_daily_stats (update_daily_stats empty_database ''EMBR'' 19723 10) ''EMBR'' 19723 20)) =
     [1, 2] \<and>
   map ds_station_id (tbl_daily_stats
     (update_daily_stats (update_daily_stats empty_database ''EMBR'' 19723 10) ''EMBR'' 19723 20)) =
     [''EMBR'', ''EMBR''] \<and>
   map ds_date (tbl_daily_stats
     (update_daily_stats (update_daily_stats empty_database ''EMBR'' 19723 10) ''EMBR'' 19723 20)) =
     [19723, 19723]"
  by (simp add: update_daily_stats_def daily_stats_query_def empty_database_def next_rowid_def
      sql_sum_def sql_avg_def sql_max_def non_null_def py_or_def Let_def)

subsection \<open>Daily stats after a run of inserts\<close>

lemma save_departure_appends:
  assumes "save_departure db dd t l = Inr db'"
  shows "\<exists>row. tbl_departures db' = tbl_departures db @ [row] \<and>
               dd_station_id dd = Given (dp_station_id row) \<and>
               dp_created_at row = t \<and>
               dp_delay row = py_get_default (dd_delay dd) 0"
  using assms
  by (auto simp: save_departure_def and_then_Inr py_item_Inr not_null_Inr Let_def)

lemma save_departure_calls_rows:
  "save_departure_calls db calls = Inr db' \<Longrightarrow>
   \<exists>rows. tbl_departures db' = tbl_departures db @ rows \<and>
     list_all2 (\<lambda>c row. dd_station_id (fst c) = Given (dp_station_id row) \<and>
                        dp_created_at row = fst (snd c) \<and>
                        dp_delay row = py_get_default (dd_delay (fst c)) 0) calls rows"
proof (induction calls arbitrary: db)
  case Nil
  then show ?case by simp
next
  case (Cons c calls)
  obtain dd t l where c: "c = (dd, t, l)" by (cases c)
  from Cons.prems obtain db1 where 1: "save_departure db dd t l = Inr db1"
    and 2: "save_departure_calls db1 calls = Inr db'"
    by (auto simp: c split: sum.splits)
  from save_departure_appends [OF 1] obtain row where
    r: "tbl_departures db1 = tbl_departures db @ [row]"
       "dd_station_id dd = Given (dp_station_id row)" "dp_created_at row = t"
       "dp_delay row = py_get_default (dd_delay dd) 0" by blast
  from Cons.IH [OF 2] obtain rows where
    rs: "tbl_departures db' = tbl_departures db1 @ rows"
        "list_all2 (\<lambda>c row. dd_station_id (fst c) = Given (dp_station_id row) \<and>
                        dp_created_at row = fst (snd c) \<and>
                        dp_delay row = py_get_default (dd_delay (fst c)) 0) calls rows" by blast
  show ?case
    by (rule exI [of _ "row # rows"]) (simp add: rs r c)
qed

lemma non_null_Cons:
  "non_null (v # vs) = (case v of None \<Rightarrow> non_null vs | Some x \<Rightarrow> x # non_null vs)"
  by (cases v) (simp_all add: non_null_def)

lemma non_null_Nil: "non_null [] = []"
  by (simp add: non_null_def)

lemma delayed_values:
  "non_null (map (\<lambda>v. if is_true (sql_gt v 0) then v else None) ds) = filter ((<) 0) (non_null ds)"
  by (induction ds)
     (auto simp: non_null_Cons non_null_Nil is_true_def sql_gt_def split: option.splits)

lemma delayed_count:
  "sql_sum (map (\<lambda>v. Some (if is_true (sql_gt v 0) then 1 else 0)) ds) =
     (if ds = [] then None else Some (int (length (filter ((<) 0) (non_null ds)))))"
proof -
  have 1: "non_null (map (\<lambda>v. Some (if is_true (sql_gt v 0) then 1 else (0::int))) ds) =
           map (\<lambda>v. if is_true (sql_gt v 0) then 1 else 0) ds"
    by (induction ds) (simp_all add: non_null_Cons non_null_Nil)
  have 2: "sum_list (map (\<lambda>v. if is_true (sql_gt v 0) then 1 else (0::int)) ds) =
           int (length (filter ((<) 0) (non_null ds)))"
    by (induction ds)
       (auto simp: non_null_Cons non_null_Nil is_true_def sql_gt_def split: option.splits)
  show ?thesis
    unfolding sql_sum_def 1 using 2 by (cases ds) (simp_all del: sum_list.Cons add: 2 [symmetric])
qed

lemma fold_max_clip:
  "0 \<le> a \<Longrightarrow>
   fold max (non_null (map (\<lambda>v. if is_true (sql_gt v 0) then v else Some 0) ds)) a =
   fold max (filter ((<) 0) (non_null ds)) (a::int)"
  by (induction ds arbitrary: a)
     (auto simp: non_null_Cons non_null_Nil is_true_def sql_gt_def split: option.splits)

lemma fold_max_positive:
  assumes "\<forall>n \<in> set ps. 0 < n"
  shows "fold max ps (0::int) = (if ps = [] then 0 else Max (set ps))"
proof (cases ps)
  case Nil
  then show ?thesis by simp
next
  case (Cons p ps')
  then have "max p 0 = p" using assms by simp
  then show ?thesis using Cons Max.set_eq_fold [of p ps'] by simp
qed

lemma delayed_max:
  "py_or (sql_max (map (\<lambda>v. if is_true (sql_gt v 0) then v else Some 0) ds)) 0 =
     (if filter ((<) 0) (non_null ds) = [] then 0 else Max (set (filter ((<) 0) (non_null ds))))"
proof (cases ds)
  case Nil
  then show ?thesis by (simp add: sql_max_def non_null_Nil py_or_None)
next
  case (Cons v vs)
  let ?P = "filter ((<) 0) (non_null vs)"
  show ?thesis
  proof (cases "is_true (sql_gt v 0)")
    case True
    then obtain n where n: "v = Some n" "0 < n"
      by (cases v) (auto simp: is_true_def sql_gt_def)
    have "fold max (non_null (map (\<lambda>v. if is_true (sql_gt v 0) then v else Some 0) vs)) n
          = fold max ?P n" using n by (intro fold_max_clip) simp
    also have "\<dots> = Max (set (n # ?P))" by (rule Max.set_eq_fold [symmetric])
    finally show ?thesis using n True
      by (simp add: Cons sql_max_def non_null_Cons py_or_Some)
  next
    case False
    then have f: "filter ((<) 0) (non_null (v # vs)) = ?P"
      by (cases v) (auto simp: non_null_Cons is_true_def sql_gt_def)
    have "fold max (non_null (map (\<lambda>v. if is_true (sql_gt v 0) then v else Some 0) vs)) 0
          = fold max ?P 0" by (intro fold_max_clip) simp
    also have "\<dots> = (if ?P = [] then 0 else Max (set ?P))"
      by (rule fold_max_positive) simp
    finally have m:
      "fold max (non_null (map (\<lambda>v. if is_true (sql_gt v 0) then v else Some 0) vs)) 0
          = (if ?P = [] then 0 else Max (set ?P))" .
    have "sql_max (map (\<lambda>v. if is_true (sql_gt v 0) then v else Some 0) (v # vs)) =
          Some (fold max (non_null (map (\<lambda>v. if is_true (sql_gt v 0) then v else Some 0) vs)) 0)"
      using False by (simp add: sql_max_def non_null_Cons)
    then show ?thesis unfolding Cons f m by (simp only: py_or_Some)
  qed
qed

lemma delayed_avg:
  "py_or (sql_avg (map (\<lambda>v. if is_true (sql_gt v 0) then v else None) ds)) 0 =
     (if filter ((<) 0) (non_null ds) = [] then 0
      else of_int (sum_list (filter ((<) 0) (non_null ds))) /
           of_int (int (length (filter ((<) 0) (non_null ds)))))"
  unfolding sql_avg_def delayed_values
  by (cases "filter ((<) 0) (non_null ds)") (simp_all add: py_or_None py_or_Some)

lemma daily_stats_query_aggregates:
  "daily_stats_query db s d =
     (let rows = filter (\<lambda>r. dp_station_id r = s \<and> date_of (dp_created_at r) = d) (tbl_departures db);
          ds = map dp_delay rows
      in (int (length rows),
          sql_sum (map (\<lambda>v. Some (if is_true (sql_gt v 0) then 1 else 0)) ds),
          sql_avg (map (\<lambda>v. if is_true (sql_gt v 0) then v else None) ds),
          sql_max (map (\<lambda>v. if is_true (sql_gt v 0) then v else Some 0) ds)))"
  by (simp add: daily_stats_query_def Let_def o_def)

lemma update_daily_stats_last:
  "last (tbl_daily_stats (update_daily_stats db s d t)) =
     (case daily_stats_query db s d of
        (n, delayed, avg_delay, max_delay) \<Rightarrow>
          \<lparr>ds_id = next_rowid (seq_daily_stats db) (map ds_id (tbl_daily_stats db)),
           ds_station_id = s, ds_date = d,
           ds_total_departures = n,
           ds_delayed_departures = py_or delayed 0,
           ds_avg_delay_minutes = py_or avg_delay 0,
           ds_max_delay_minutes = py_or max_delay 0,
           ds_created_at = t\<rparr>)"
  by (cases "daily_stats_query db s d") (simp add: update_daily_stats_def Let_def py_or_Some)

text \<open>
  Claim C5. Start from a store with no departure of station \<open>s\<close> created on day \<open>d\<close>,
  insert \<open>N\<close> departures of \<open>s\<close> at moments of day \<open>d\<close> (the day that the query reads, the
  UTC date of \<^verbatim>\<open>created_at\<close>) and recompute the daily stats: the row written has total
  \<open>N\<close>, as delayed count the number of inserted delays above 0, and as average and maximum
  the mean and the largest of those delays, both 0 when there is none.
\<close>

theorem daily_stats_after_inserts:
  assumes calls: "save_departure_calls db calls = Inr db'"
    and key: "\<forall>c \<in> set calls. dd_station_id (fst c) = Given s \<and> date_of (fst (snd c)) = d"
    and fresh: "\<forall>r \<in> set (tbl_departures db). \<not> (dp_station_id r = s \<and> date_of (dp_created_at r) = d)"
    and delayed: "delayed = filter ((<) 0) (non_null (map (\<lambda>c. py_get_default (dd_delay (fst c)) 0) calls))"
    and stat: "stat = last (tbl_daily_stats (update_daily_stats db' s d t))"
  shows "ds_station_id stat = s \<and> ds_date stat = d \<and>
         ds_total_departures stat = int (length calls) \<and>
         ds_delayed_departures stat = int (length delayed) \<and>
         ds_avg_delay_minutes stat =
           (if delayed = [] then 0 else of_int (sum_list delayed) / of_int (int (length delayed))) \<and>
         ds_max_delay_minutes stat = (if delayed = [] then 0 else Max (set delayed))"
proof -
  from save_departure_calls_rows [OF calls] obtain rows where
    t: "tbl_departures db' = tbl_departures db @ rows"
    and l: "list_all2 (\<lambda>c row. dd_station_id (fst c) = Given (dp_station_id row) \<and>
                        dp_created_at row = fst (snd c) \<and>
                        dp_delay row = py_get_default (dd_delay (fst c)) 0) calls rows" by blast
  have len: "length rows = length calls" using l by (simp add: list_all2_lengthD)
  have m: "\<forall>r \<in> set rows. dp_station_id r = s \<and> date_of (dp_created_at r) = d"
  proof
    fix r assume "r \<in> set rows"
    then obtain i where i: "i < length rows" "rows ! i = r" by (auto simp: in_set_conv_nth)
    then have "dd_station_id (fst (calls ! i)) = Given (dp_station_id r) \<and>
               dp_created_at r = fst (snd (calls ! i))"
      using l len by (auto dest: list_all2_nthD)
    moreover have "calls ! i \<in> set calls" using i len by simp
    ultimately show "dp_station_id r = s \<and> date_of (dp_created_at r) = d" using key by auto
  qed
  have dl: "map dp_delay rows = map (\<lambda>c. py_get_default (dd_delay (fst c)) 0) calls"
    using l by (induction calls rows rule: list_all2_induct) simp_all
  have f: "filter (\<lambda>r. dp_station_id r = s \<and> date_of (dp_created_at r) = d) (tbl_departures db') = rows"
    using fresh m by (simp add: t filter_empty_conv filter_id_conv)
  have q: "daily_stats_query db' s d =
     (int (length calls),
      sql_sum (map (\<lambda>v. Some (if is_true (sql_gt v 0) then 1 else 0)) (map dp_delay rows)),
      sql_avg (map (\<lambda>v. if is_true (sql_gt v 0) then v else None) (map dp_delay rows)),
      sql_max (map (\<lambda>v. if is_true (sql_gt v 0) then v else Some 0) (map dp_delay rows)))"
    unfolding daily_stats_query_aggregates Let_def f len ..
  have d': "delayed = filter ((<) 0) (non_null (map dp_delay rows))"
    using delayed dl by simp
  have c: "py_or (sql_sum (map (\<lambda>v. Some (if is_true (sql_gt v 0) then 1 else 0)) (map dp_delay rows))) 0
           = int (length delayed)"
    unfolding delayed_count d' by (simp add: py_or_None py_or_Some non_null_Nil)
  have a: "py_or (sql_avg (map (\<lambda>v. if is_true (sql_gt v 0) then v else None) (map dp_delay rows))) 0
           = (if delayed = [] then 0 else of_int (sum_list delayed) / of_int (int (length delayed)))"
    unfolding delayed_avg d' ..
  have b: "py_or (sql_max (map (\<lambda>v. if is_true (sql_gt v 0) then v else Some 0) (map dp_delay rows))) 0
           = (if delayed = [] then 0 else Max (set delayed))"
    unfolding delayed_max d' ..
  show ?thesis
    unfolding stat update_daily_stats_last q
    by (simp del: map_map add: c a b)
qed

theorem daily_stats_after_inserts_witness:
  "\<exists>db'.
     save_departure_calls empty_database
       [example_departure ''Richmond'' (Given 4) 1704067200,
        example_departure ''Millbrae'' Absent 1704067260,
        example_departure ''Richmond'' (Given 10) 1704067320] = Inr db' \<and>
     ds_total_departures (last (tbl_daily_stats (update_daily_stats db' ''EMBR'' 19723 1704070000))) = 3 \<and>
     ds_delayed_departures (last (tbl_daily_stats (update_daily_stats db' ''EMBR'' 19723 1704070000))) = 2 \<and>
     ds_avg_delay_minutes (last (tbl_daily_stats (update_daily_stats db' ''EMBR'' 19723 1704070000))) = 7 \<and>
     ds_max_delay_minutes (last (tbl_daily_stats (update_daily_stats db' ''EMBR'' 19723 1704070000))) = 10"
proof -
  let ?calls = "[example_departure ''Richmond'' (Given 4) 1704067200,
        example_departure ''Millbrae'' Absent 1704067260,
        example_departure ''Richmond'' (Given 10) 1704067320]"
  obtain db' where 1: "save_departure_calls empty_database ?calls = Inr db'"
    by (simp add: example_departure_def save_departure_def and_then_def not_null_def Let_def)
  have 2: "\<forall>c \<in> set ?calls. dd_station_id (fst c) = Given ''EMBR'' \<and> date_of (fst (snd c)) = 19723"
    by (simp add: example_departure_def date_of_def)
  have 3: "\<forall>r \<in> set (tbl_departures empty_database).
             \<not> (dp_station_id r = ''EMBR'' \<and> date_of (dp_created_at r) = 19723)"
    by (simp add: empty_database_def)
  have 4: "filter ((<) 0) (non_null (map (\<lambda>c. py_get_default (dd_delay (fst c)) 0) ?calls)) = [4, 10]"
    by (simp add: example_departure_def non_null_def)
  have "ds_total_departures (last (tbl_daily_stats (update_daily_stats db' ''EMBR'' 19723 1704070000))) = 3 \<and>
     ds_delayed_departures (last (tbl_daily_stats (update_daily_stats db' ''EMBR'' 19723 1704070000))) = 2 \<and>
     ds_avg_delay_minutes (last (tbl_daily_stats (update_daily_stats db' ''EMBR'' 19723 1704070000))) = 7 \<and>
     ds_max_delay_minutes (last (tbl_daily_stats (update_daily_stats db' ''EMBR'' 19723 1704070000))) = 10"
    using daily_stats_after_inserts [OF 1 2 3 4 [symmetric] refl, of 1704070000] by simp
  with 1 have "save_departure_calls empty_database ?calls = Inr db' \<and>
     ds_total_departures (last (tbl_daily_stats (update_daily_stats db' ''EMBR'' 19723 1704070000))) = 3 \<and>
     ds_delayed_departures (last (tbl_daily_stats (update_daily_stats db' ''EMBR'' 19723 1704070000))) = 2 \<and>
     ds_avg_delay_minutes (last (tbl_daily_stats (update_daily_stats db' ''EMBR'' 19723 1704070000))) = 7 \<and>
     ds_max_delay_minutes (last (tbl_daily_stats (update_daily_stats db' ''EMBR'' 19723 1704070000))) = 10"
    by (intro conjI) simp_all
  then show ?thesis by - (rule exI [of _ db'], assumption)
qed

end
